theory Spec2Isabelle
  imports Complex_Main
begin

section \<open>Numbers and their rendering\<close>














subsection \<open>formatTime\<close>



section \<open>The audio session hook\<close>

text \<open>
  The repository holds two variants of the hook \<open>useBirthdayAudio\<close>. Both keep React
  state next to one media element; the second variant adds an error field, an autoplay
  flag and a mounted flag. The media element is modelled by the two attributes the
  operations below read or write.
\<close>

record audio =
  src :: string
  paused :: bool

text \<open>
  The value a rejected play request or an error event carries: a string, or an object
  whose \<open>target.error.message\<close> may be missing (as for the exception of a refused
  play request).
\<close>

datatype audio_error = ErrorString string | ErrorObject "string option"

datatype play_result = Fulfilled | Rejected audio_error

text \<open>
  What the hook does to the outside is kept as a trace: assignments and calls on the
  media element, lines written to the console, and calls of the observer callbacks.
\<close>

datatype action =
    SetSrc string
  | PlayCall
  | PauseCall
  | ConsoleError string
  | OnPlay
  | OnPause
  | OnSongChange string
  | OnError audio_error

text \<open>Which of the optional observer callbacks the caller has supplied.\<close>

record callbacks =
  onPlay :: bool
  onPause :: bool
  onSongChange :: bool
  onError :: bool

record session =
  audioRef :: "audio option"
  isPlaying :: bool
  currentSong :: string
  isLoading :: bool
  trace :: "action list"

record session2 = session +
  errorState :: "string option"
  canAutoplay :: bool
  isMountedRef :: bool

text \<open>
  A step returns, or an exception or rejection leaves it unhandled; either way the
  state it has reached is kept. \<open>and_then\<close> runs the next step after a return.
\<close>

datatype ('e, 's) outcome = Returned 's | Raised 'e 's

fun state_of :: "('e, 's) outcome \<Rightarrow> 's" where
  "state_of (Returned s) = s"
| "state_of (Raised e s) = s"

fun and_then :: "('e, 's) outcome \<Rightarrow> ('s \<Rightarrow> ('e, 's) outcome) \<Rightarrow> ('e, 's) outcome" where
  "and_then (Returned s) f = f s"
| "and_then (Raised e s) f = Raised e s"

text \<open>
  The media element. A fulfilled \<open>play()\<close> leaves the paused state and, when the
  element was paused, the element dispatches \<open>play\<close>; a rejected request is the browser
  refusing to start, and the element stays as it was. \<open>pause()\<close> enters the paused state
  and dispatches \<open>pause\<close> when the element was not paused. The second component says
  whether the event is dispatched. Assigning \<open>src\<close> is kept as the new value of the
  attribute; the loading that the browser starts on the assignment, and what it does to
  the playback of the element, is not part of the model.
\<close>

definition el_play :: "play_result \<Rightarrow> audio \<Rightarrow> audio \<times> bool" where
  "el_play r a = (case r of Fulfilled \<Rightarrow> (a\<lparr>paused := False\<rparr>, paused a) | Rejected e \<Rightarrow> (a, False))"

definition el_pause :: "audio \<Rightarrow> audio \<times> bool" where
  "el_pause a = (a\<lparr>paused := True\<rparr>, \<not> paused a)"

text \<open>\<open>new Audio()\<close>: no source, paused.\<close>

definition newAudio :: audio where
  "newAudio = \<lparr>src = [], paused = True\<rparr>"

text \<open>
  \<open>promise.then(onFulfilled).catch(onRejected)\<close>: a rejection nobody catches stays
  unhandled.
\<close>

definition settle ::
  "play_result \<Rightarrow> ('s \<Rightarrow> 's) \<Rightarrow> (audio_error \<Rightarrow> 's \<Rightarrow> 's) option \<Rightarrow> 's \<Rightarrow> (audio_error, 's) outcome"
where
  "settle r onFulfilled onRejected s =
     (case r of
        Fulfilled \<Rightarrow> Returned (onFulfilled s)
      | Rejected e \<Rightarrow> (case onRejected of None \<Rightarrow> Raised e s | Some h \<Rightarrow> Returned (h e s)))"

definition emit :: "action \<Rightarrow> ('a session_scheme) \<Rightarrow> 'a session_scheme" where
  "emit x s = s\<lparr>trace := trace s @ [x]\<rparr>"

text \<open>\<open>if (callback) callback(...)\<close>\<close>

definition notify :: "bool \<Rightarrow> action \<Rightarrow> ('a session_scheme) \<Rightarrow> 'a session_scheme" where
  "notify supplied x s = (if supplied then emit x s else s)"

text \<open>
  A call of one of the functions the hook returns runs the callback and, as the callback
  has set state, React renders the hook again and runs the effect once more when one of
  its dependencies has a new value. For each function below the definition with the suffix
  \<open>callback\<close> is the body of the callback alone, and the definition with the name of the
  function is the whole step: the callback with its request settled, then the render it
  causes. The options and observer callbacks are taken to stay the same between renders,
  so that only state can change a dependency. A play request has its outcome as an
  argument: \<open>r\<close> for the request of the callback, \<open>r'\<close> for the request the effect may
  make when it runs again.
\<close>

subsection \<open>First variant\<close>

definition handlePlay_v1 :: "session \<Rightarrow> session" where
  "handlePlay_v1 s = s\<lparr>isPlaying := True\<rparr>"

definition handlePause_v1 :: "session \<Rightarrow> session" where
  "handlePause_v1 s = s\<lparr>isPlaying := False\<rparr>"

text \<open>
  The effect of the first variant, with the dependencies \<open>currentSong\<close>, \<open>autoPlay\<close> and
  \<open>isPlaying\<close>: it creates the element when there is none, assigns the source, requests
  playback when \<open>autoPlay && !isPlaying\<close>, and attaches the listeners; its cleanup only
  detaches them. The element also gets its volume, mute and loop attributes, which are
  not part of the model.
\<close>

definition useEffect_v1 :: "bool \<Rightarrow> play_result \<Rightarrow> session \<Rightarrow> (audio_error, session) outcome" where
  "useEffect_v1 autoPlay r s =
     (let a = (case audioRef s of None \<Rightarrow> newAudio | Some a \<Rightarrow> a);
          a1 = a\<lparr>src := currentSong s\<rparr>;
          s1 = emit (SetSrc (currentSong s)) (s\<lparr>audioRef := Some a1\<rparr>)
      in if autoPlay \<and> \<not> isPlaying s1 then
           let (a', ev) = el_play r a1;
               s2 = emit PlayCall (s1\<lparr>audioRef := Some a'\<rparr>);
               s3 = (if ev then handlePlay_v1 s2 else s2)
           in settle r (\<lambda>s. s)
                (Some (\<lambda>error s. emit (ConsoleError ''Error playing audio automatically:'') s)) s3
         else Returned s1)"

definition deps_v1 :: "session \<Rightarrow> string \<times> bool" where
  "deps_v1 s = (currentSong s, isPlaying s)"

text \<open>
  The render after a callback that started in the state \<open>before\<close>: the effect runs when a
  dependency has changed, and once more when that run has changed a dependency itself
  (a fulfilled request sets \<open>isPlaying\<close>); after that no run changes one.
\<close>

definition rerender_v1 ::
  "bool \<Rightarrow> play_result \<Rightarrow> session \<Rightarrow> session \<Rightarrow> (audio_error, session) outcome"
where
  "rerender_v1 autoPlay r' before s =
     (if deps_v1 s = deps_v1 before then Returned s
      else and_then (useEffect_v1 autoPlay r' s)
             (\<lambda>s1. if deps_v1 s1 = deps_v1 s then Returned s1 else useEffect_v1 autoPlay r' s1))"









subsection \<open>Second variant\<close>

text \<open>
  \<open>safeSetState\<close> writes only while the hook is mounted. The effect that sets
  \<open>isMountedRef\<close> also attaches the listeners, and its cleanup clears the flag and
  detaches them, so an event reaches its listener exactly when the flag is set.
\<close>

definition safeSetState :: "(session2 \<Rightarrow> session2) \<Rightarrow> session2 \<Rightarrow> session2" where
  "safeSetState setter s = (if isMountedRef s then setter s else s)"

definition errorMessage :: "audio_error \<Rightarrow> string" where
  "errorMessage error =
     (case error of
        ErrorString m \<Rightarrow> m
      | ErrorObject None \<Rightarrow> ''Unknown audio error''
      | ErrorObject (Some m) \<Rightarrow> (if m = [] then ''Unknown audio error'' else m))"

definition handleError :: "callbacks \<Rightarrow> audio_error \<Rightarrow> string \<Rightarrow> session2 \<Rightarrow> session2" where
  "handleError cb error ctxt s =
     (let s1 = emit (ConsoleError (''Audio Error ('' @ ctxt @ ''):'')) s;
          s2 = safeSetState (\<lambda>s. s\<lparr>errorState := Some (errorMessage error)\<rparr>) s1;
          s3 = notify (onError cb) (OnError error) s2
      in safeSetState (\<lambda>s. s\<lparr>isLoading := False\<rparr>) s3)"

definition handlePlay_v2 :: "callbacks \<Rightarrow> session2 \<Rightarrow> session2" where
  "handlePlay_v2 cb s =
     notify (onPlay cb) OnPlay
       (safeSetState (\<lambda>s. s\<lparr>errorState := None\<rparr>) (safeSetState (\<lambda>s. s\<lparr>isPlaying := True\<rparr>) s))"

definition handlePause_v2 :: "callbacks \<Rightarrow> session2 \<Rightarrow> session2" where
  "handlePause_v2 cb s = notify (onPause cb) OnPause (safeSetState (\<lambda>s. s\<lparr>isPlaying := False\<rparr>) s)"

text \<open>
  The cleanup of the effect of the second variant: it clears the mounted flag, pauses the
  element and detaches the listeners, so the \<open>pause\<close> event of that call reaches none.
\<close>

definition cleanup_v2 :: "session2 \<Rightarrow> session2" where
  "cleanup_v2 s =
     (let s1 = s\<lparr>isMountedRef := False\<rparr>
      in case audioRef s1 of
           None \<Rightarrow> s1
         | Some a \<Rightarrow>
             let (a', ev) = el_pause a
             in emit PauseCall (s1\<lparr>audioRef := Some a'\<rparr>))"

text \<open>
  The body of the effect, with \<open>currentSong\<close> and \<open>canAutoplay\<close> among its dependencies
  (the others are options and callbacks): it sets the mounted flag, creates the element
  when there is none, assigns the source, attaches the listeners and requests playback
  when \<open>autoPlay && !isPlaying && canAutoplay\<close>; a refusal of that request is handled as
  an error and clears \<open>canAutoplay\<close> and \<open>isPlaying\<close>. The element also gets its volume,
  mute and loop attributes, which are not part of the model.
\<close>

definition useEffect_v2 ::
  "bool \<Rightarrow> callbacks \<Rightarrow> play_result \<Rightarrow> session2 \<Rightarrow> (audio_error, session2) outcome"
where
  "useEffect_v2 autoPlay cb r s =
     (let s0 = s\<lparr>isMountedRef := True\<rparr>;
          a = (case audioRef s0 of None \<Rightarrow> newAudio | Some a \<Rightarrow> a);
          a1 = a\<lparr>src := currentSong s0\<rparr>;
          s1 = emit (SetSrc (currentSong s0)) (s0\<lparr>audioRef := Some a1\<rparr>)
      in if autoPlay \<and> \<not> isPlaying s1 \<and> canAutoplay s1 then
           let (a', ev) = el_play r a1;
               s2 = emit PlayCall (s1\<lparr>audioRef := Some a'\<rparr>);
               s3 = (if ev \<and> isMountedRef s2 then handlePlay_v2 cb s2 else s2)
           in settle r (\<lambda>s. s)
                (Some (\<lambda>error s.
                   safeSetState (\<lambda>s. s\<lparr>isPlaying := False\<rparr>)
                     (safeSetState (\<lambda>s. s\<lparr>canAutoplay := False\<rparr>)
                        (handleError cb error ''autoplay'' s))))
                s3
         else Returned s1)"

definition deps_v2 :: "session2 \<Rightarrow> string \<times> bool" where
  "deps_v2 s = (currentSong s, canAutoplay s)"

text \<open>
  The render after a callback that started in the state \<open>before\<close>: cleanup and effect run
  when a dependency has changed, and once more when that run has changed one itself (a
  refused autoplay clears \<open>canAutoplay\<close>); after that no run changes one.
\<close>

definition rerender_v2 ::
  "bool \<Rightarrow> callbacks \<Rightarrow> play_result \<Rightarrow> session2 \<Rightarrow> session2 \<Rightarrow> (audio_error, session2) outcome"
where
  "rerender_v2 autoPlay cb r' before s =
     (if deps_v2 s = deps_v2 before then Returned s
      else and_then (useEffect_v2 autoPlay cb r' (cleanup_v2 s))
             (\<lambda>s1. if deps_v2 s1 = deps_v2 s then Returned s1
                   else useEffect_v2 autoPlay cb r' (cleanup_v2 s1)))"







text \<open>
  The callback of \<open>changeSong\<close> computes \<open>wasPlaying\<close> and does not use it; it leaves the
  new source and any autoplay to the effect.
\<close>

definition changeSong_v2_callback :: "callbacks \<Rightarrow> string \<Rightarrow> session2 \<Rightarrow> session2" where
  "changeSong_v2_callback cb songUrl s =
     (case audioRef s of
        None \<Rightarrow> s
      | Some a \<Rightarrow>
          if songUrl \<noteq> currentSong s then
            let wasPlaying = \<not> paused a;
                s1 = safeSetState (\<lambda>s. s\<lparr>isLoading := True\<rparr>) s;
                s2 = safeSetState (\<lambda>s. s\<lparr>currentSong := songUrl\<rparr>) s1
            in notify (onSongChange cb) (OnSongChange songUrl) s2
          else s)"

definition changeSong_v2 ::
  "bool \<Rightarrow> callbacks \<Rightarrow> play_result \<Rightarrow> string \<Rightarrow> session2 \<Rightarrow> (audio_error, session2) outcome"
where
  "changeSong_v2 autoPlay cb r' songUrl s =
     rerender_v2 autoPlay cb r' s (changeSong_v2_callback cb songUrl s)"



section \<open>Dates\<close>

text \<open>
  A \<open>Date\<close> is kept by its calendar fields: the full year, the month index counted from
  zero, the day of the month and the milliseconds since midnight. \<open>getTime\<close> is the time
  value of the language standard (milliseconds since the epoch), with the local time zone
  taken to be UTC.
\<close>

record Date =
  fullYear :: int
  monthIndex :: nat
  dayOfMonth :: nat
  msOfDay :: nat

definition msPerDay :: int where
  "msPerDay = 86400000"

definition DayFromYear :: "int \<Rightarrow> int" where
  "DayFromYear y = 365 * (y - 1970) + (y - 1969) div 4 - (y - 1901) div 100 + (y - 1601) div 400"

definition InLeapYear :: "int \<Rightarrow> bool" where
  "InLeapYear y = (y mod 4 = 0 \<and> (y mod 100 \<noteq> 0 \<or> y mod 400 = 0))"


definition daysBeforeMonth :: "int \<Rightarrow> nat \<Rightarrow> int" where
  "daysBeforeMonth y m =
     [0, 31, 59, 90, 120, 151, 181, 212, 243, 273, 304, 334] ! m
       + (if InLeapYear y \<and> 2 \<le> m then 1 else 0)"

definition getTime :: "Date \<Rightarrow> int" where
  "getTime d =
     (DayFromYear (fullYear d) + daysBeforeMonth (fullYear d) (monthIndex d)
        + int (dayOfMonth d) - 1) * msPerDay + int (msOfDay d)"


text \<open>
  \<open>new Date(year, monthIndex, day)\<close> is local midnight of that day; a year from 0 to
  99 stands for the year 1900 later. \<open>setFullYear\<close> replaces the year as it is given.
  Both are only used for the 15th of April, which exists in every year, so no field
  overflows. A \<open>Date\<close> holds a time value only up to 8.64e15 milliseconds from the
  epoch, which is reached in the year 275760.
\<close>

definition newDate :: "int \<Rightarrow> nat \<Rightarrow> nat \<Rightarrow> Date" where
  "newDate y m d =
     \<lparr>fullYear = (if 0 \<le> y \<and> y \<le> 99 then 1900 + y else y), monthIndex = m, dayOfMonth = d,
      msOfDay = 0\<rparr>"

definition setFullYear :: "Date \<Rightarrow> int \<Rightarrow> Date" where
  "setFullYear d y = d\<lparr>fullYear := y\<rparr>"


section \<open>The countdown hook\<close>

record CountdownTime =
  days :: int
  hours :: int
  minutes :: int
  seconds :: int

text \<open>
  The state of \<open>useCountdown\<close>: the two React state variables, and the interval the effect
  has armed, kept with the target date its callback has captured.
\<close>

record countdown =
  countdownTime :: CountdownTime
  countdownEnded :: bool
  timer :: "Date option"

definition zeroTime :: CountdownTime where
  "zeroTime = \<lparr>days = 0, hours = 0, minutes = 0, seconds = 0\<rparr>"

definition useCountdown_init :: countdown where
  "useCountdown_init = \<lparr>countdownTime = zeroTime, countdownEnded = False, timer = None\<rparr>"

text \<open>\<open>today\<close> stands for \<open>new Date()\<close>.\<close>

definition defaultTargetDate :: "Date \<Rightarrow> Date" where
  "defaultTargetDate today =
     (let nextBirthday = newDate (fullYear today) 3 15
      in if getTime today > getTime nextBirthday
         then setFullYear nextBirthday (fullYear nextBirthday + 1)
         else nextBirthday)"

text \<open>\<open>targetDate || defaultTargetDate()\<close>, evaluated at every render.\<close>

definition finalTargetDate :: "Date option \<Rightarrow> Date \<Rightarrow> Date" where
  "finalTargetDate targetDate today =
     (case targetDate of Some d \<Rightarrow> d | None \<Rightarrow> defaultTargetDate today)"

text \<open>
  \<open>now\<close> stands for \<open>new Date().getTime()\<close>. The function returns the time left and
  the state, in which it may have set \<open>countdownEnded\<close>.
\<close>

definition calculateTimeLeft :: "Date \<Rightarrow> int \<Rightarrow> countdown \<Rightarrow> CountdownTime \<times> countdown" where
  "calculateTimeLeft target now s =
     (let targetTime = getTime target;
          difference = targetTime - now
      in if difference \<le> 0 then (zeroTime, s\<lparr>countdownEnded := True\<rparr>)
         else
           (\<lparr>days = difference div (1000 * 60 * 60 * 24),
             hours = (difference mod (1000 * 60 * 60 * 24)) div (1000 * 60 * 60),
             minutes = (difference mod (1000 * 60 * 60)) div (1000 * 60),
             seconds = (difference mod (1000 * 60)) div 1000\<rparr>, s))"

text \<open>
  One run of the effect for the target of the current render: the cleanup of the
  previous run has cleared its interval, the first calculation is stored and a new
  interval is armed.
\<close>

definition countdown_effect :: "Date \<Rightarrow> int \<Rightarrow> countdown \<Rightarrow> countdown" where
  "countdown_effect target now s =
     (let (timeLeft, s1) = calculateTimeLeft target now s
      in s1\<lparr>countdownTime := timeLeft, timer := Some target\<rparr>)"

text \<open>The interval's callback; nothing runs when no interval is armed.\<close>

definition tick :: "int \<Rightarrow> countdown \<Rightarrow> countdown" where
  "tick now s =
     (case timer s of
        None \<Rightarrow> s
      | Some target \<Rightarrow>
          let (timeLeft, s1) = calculateTimeLeft target now s;
              s2 = s1\<lparr>countdownTime := timeLeft\<rparr>
          in if days timeLeft = 0 \<and> hours timeLeft = 0 \<and> minutes timeLeft = 0 \<and> seconds timeLeft = 0
             then s2\<lparr>countdownEnded := True, timer := None\<rparr>
             else s2)"

definition resetCountdown :: "Date option \<Rightarrow> Date \<Rightarrow> countdown \<Rightarrow> Date \<times> countdown" where
  "resetCountdown newTargetDate today s =
     (let resetDate = (case newTargetDate of Some d \<Rightarrow> d | None \<Rightarrow> defaultTargetDate today)
      in (resetDate, s\<lparr>countdownEnded := False, countdownTime := zeroTime\<rparr>))"

text \<open>
  What can happen to a mounted hook: a render whose target differs from the previous one
  (the first render included) runs the effect for the target of that render, the armed
  interval fires, or the caller resets. \<open>Render targetDate today now\<close> carries the
  argument of the hook, the date read while rendering and the time read by the effect.
\<close>

datatype event = Render "Date option" Date int | Tick int | Reset "Date option" Date

fun step :: "countdown \<Rightarrow> event \<Rightarrow> countdown" where
  "step s (Render targetDate today now) = countdown_effect (finalTargetDate targetDate today) now s"
| "step s (Tick now) = tick now s"
| "step s (Reset newTargetDate today) = snd (resetCountdown newTargetDate today s)"

definition run :: "event list \<Rightarrow> countdown" where
  "run evs = foldl step useCountdown_init evs"

text \<open>The readings of the clock in the order they are taken, and the targets of the renders.\<close>

fun readings :: "event list \<Rightarrow> int list" where
  "readings [] = []"
| "readings (Render targetDate today now # evs) = now # readings evs"
| "readings (Tick now # evs) = now # readings evs"
| "readings (Reset newTargetDate today # evs) = readings evs"

fun targets :: "event list \<Rightarrow> int list" where
  "targets [] = []"
| "targets (Render targetDate today now # evs) = getTime (finalTargetDate targetDate today) # targets evs"
| "targets (Tick now # evs) = targets evs"
| "targets (Reset newTargetDate today # evs) = targets evs"

fun is_Reset :: "event \<Rightarrow> bool" where
  "is_Reset (Reset newTargetDate today) = True"
| "is_Reset e = False"

text \<open>
  The invariant behind the end of the countdown, for renders that all have the target
  time \<open>T\<close> and a clock that has reached \<open>lo\<close>: an armed interval has captured that
  target, and once the countdown has ended the remainder is zero and less than a second
  separates the target from the clock.
\<close>

definition ended_inv :: "int \<Rightarrow> int \<Rightarrow> countdown \<Rightarrow> bool" where
  "ended_inv T lo s =
     ((\<forall>d. timer s = Some d \<longrightarrow> getTime d = T)
      \<and> (countdownEnded s \<longrightarrow> countdownTime s = zeroTime \<and> T < lo + 1000))"

section \<open>The stage controller\<close>

datatype Stage =
    StCountdown
  | StGreeting
  | StVideo
  | StSelection
  | StResult
  | StPartyRoom
  | StGuestbook
  | StSlideshow
  | StPoem
  | StGift
  | StPhotoBoothResult

record category_data =
  dishes :: "string list"
  places :: "string list"

text \<open>
  The food table, an object literal, as the list of its keys and values. Names are byte
  strings; the letter e with acute accent of the two cafes is its two UTF-8 bytes.
\<close>

definition foodData :: "(string \<times> category_data) list" where
  "foodData =
     [(''lightFood'',
        \<lparr>dishes = [''Caprese Salad'', ''Avocado Toast'', ''Greek Yogurt Parfait'', ''Vegetable Sushi Roll''],
         places = [''Caf'' @ [CHR 0xC3, CHR 0xA9] @ '' Bella'', ''Green Leaf Bistro'',
                   ''Sunny Side Caf'' @ [CHR 0xC3, CHR 0xA9], ''Urban Eats'']\<rparr>),
      (''heavyFood'',
        \<lparr>dishes = [''Grilled Steak with Mashed Potatoes'', ''Chicken Alfredo Pasta'', ''BBQ Pork Ribs'',
                   ''Vegetable Lasagna''],
         places = [''The Grill House'', ''Italian Villa'', ''Smokehouse BBQ'', ''Mama's Kitchen'']\<rparr>),
      (''dessert'',
        \<lparr>dishes = [''Chocolate Lava Cake'', ''Cheesecake with Berry Compote'', ''Tiramisu'', ''Creme Brulee''],
         places = [''Sweet Escape Bakery'', ''Dessert Haven'', ''Cocoa Bliss'', ''Sugar Spoon'']\<rparr>),
      (''drinks'',
        \<lparr>dishes = [''Mango Mojito'', ''Iced Caramel Latte'', ''Strawberry Smoothie'', ''Sparkling Lemonade''],
         places = [''Juice Junction'', ''Brewed Awakening'', ''Smoothie Stop'', ''Fizz & Sip'']\<rparr>)]"

text \<open>
  \<open>foodData[category]\<close>: the entry of a key of the table; for any other string the
  lookup yields nothing to read \<open>dishes\<close> from, and the handler throws.
\<close>

definition food_lookup :: "string \<Rightarrow> category_data option" where
  "food_lookup category = map_of foodData category"

datatype js_error = TypeError

record page =
  stage :: Stage
  selectedCategory :: "string option"
  selectedDish :: "string option"
  selectedPlace :: "string option"
  showMessage :: bool
  showPoem :: bool
  showGift :: bool
  showPhotoBoothModal :: bool
  showSongList :: bool
  capturedPhoto :: "string option"

text \<open>
  \<open>Math.floor(Math.random() * xs.length)\<close>, with the value of \<open>Math.random()\<close> as the
  argument \<open>r\<close>, and \<open>xs[i]\<close>, which is undefined outside the array.
\<close>

definition randomIndex :: "real \<Rightarrow> 'a list \<Rightarrow> int" where
  "randomIndex r xs = \<lfloor>r * real (length xs)\<rfloor>"

definition element_at :: "'a list \<Rightarrow> int \<Rightarrow> 'a option" where
  "element_at xs i = (if 0 \<le> i \<and> i < int (length xs) then Some (xs ! nat i) else None)"

definition handleCategorySelect :: "string \<Rightarrow> real \<Rightarrow> real \<Rightarrow> page \<Rightarrow> (js_error, page) outcome" where
  "handleCategorySelect category r1 r2 s =
     (let s1 = s\<lparr>selectedCategory := Some category\<rparr>
      in case food_lookup category of
           None \<Rightarrow> Raised TypeError s1
         | Some categoryData \<Rightarrow>
             let randomDishIndex = randomIndex r1 (dishes categoryData);
                 randomPlaceIndex = randomIndex r2 (places categoryData)
             in Returned (s1\<lparr>selectedDish := element_at (dishes categoryData) randomDishIndex,
                              selectedPlace := element_at (places categoryData) randomPlaceIndex,
                              stage := StResult\<rparr>))"

text \<open>\<open>if (selectedCategory)\<close> is false for \<open>null\<close> and for the empty string.\<close>

definition handleTryAgain :: "real \<Rightarrow> real \<Rightarrow> page \<Rightarrow> (js_error, page) outcome" where
  "handleTryAgain r1 r2 s =
     (case selectedCategory s of
        None \<Rightarrow> Returned s
      | Some category \<Rightarrow>
          if category = [] then Returned s
          else
            (case food_lookup category of
               None \<Rightarrow> Raised TypeError s
             | Some categoryData \<Rightarrow>
                 let randomDishIndex = randomIndex r1 (dishes categoryData);
                     randomPlaceIndex = randomIndex r2 (places categoryData)
                 in Returned (s\<lparr>selectedDish := element_at (dishes categoryData) randomDishIndex,
                                 selectedPlace := element_at (places categoryData) randomPlaceIndex\<rparr>)))"

section \<open>The guestbook form\<close>

text \<open>
  The text of an input is a sequence of UTF-16 code units. \<open>trim\<close> removes the white
  space and line terminators of the language standard from both ends.
\<close>

type_synonym js_string = "nat list"

definition isWhiteSpace :: "nat \<Rightarrow> bool" where
  "isWhiteSpace c =
     (c \<in> {0x0009, 0x000A, 0x000B, 0x000C, 0x000D, 0x0020, 0x00A0, 0x1680, 0x2028, 0x2029,
            0x202F, 0x205F, 0x3000, 0xFEFF} \<or> (0x2000 \<le> c \<and> c \<le> 0x200A))"

definition trim :: "js_string \<Rightarrow> js_string" where
  "trim str = rev (dropWhile isWhiteSpace (rev (dropWhile isWhiteSpace str)))"

record form_event =
  defaultPrevented :: bool

text \<open>
  The state of the component \<open>Guestbook\<close>, with the number of timeouts that are waiting
  to hide the confirmation again.
\<close>

record guestbook =
  selectedMessage :: "int option"
  nameInput :: js_string
  messageInput :: js_string
  showThankYou :: bool
  hideTimeouts :: nat

definition handleSubmitMessage :: "form_event \<Rightarrow> guestbook \<Rightarrow> form_event \<times> guestbook" where
  "handleSubmitMessage e s =
     (let e1 = e\<lparr>defaultPrevented := True\<rparr>
      in if trim (nameInput s) \<noteq> [] \<and> trim (messageInput s) \<noteq> []
         then (e1, s\<lparr>showThankYou := True, nameInput := [], messageInput := [],
                      hideTimeouts := Suc (hideTimeouts s)\<rparr>)
         else (e1, s))"

section \<open>Example states\<close>

text \<open>Concrete states on which the properties below are evaluated.\<close>

definition guestbook_example :: guestbook where
  "guestbook_example =
     \<lparr>selectedMessage = None, nameInput = [65, 110, 110], messageInput = [32, 72, 105, 33, 32],
      showThankYou = False, hideTimeouts = 0\<rparr>"

definition page_init :: page where
  "page_init =
     \<lparr>stage = StCountdown, selectedCategory = None, selectedDish = None, selectedPlace = None,
      showMessage = False, showPoem = False, showGift = False, showPhotoBoothModal = False,
      showSongList = False, capturedPhoto = None\<rparr>"

definition page_result :: page where
  "page_result =
     page_init\<lparr>selectedCategory := Some ''drinks'', selectedDish := Some ''Mango Mojito'',
               selectedPlace := Some ''Juice Junction'', stage := StResult\<rparr>"










definition eve_of_birthday :: Date where
  "eve_of_birthday = \<lparr>fullYear = 2026, monthIndex = 3, dayOfMonth = 14, msOfDay = 86399999\<rparr>"

definition birthday_morning :: Date where
  "birthday_morning = \<lparr>fullYear = 2026, monthIndex = 3, dayOfMonth = 15, msOfDay = 5\<rparr>"

definition rollover_ended :: "event list" where
  "rollover_ended = [Render None eve_of_birthday 1776211200000]"

definition rollover_rendered :: "event list" where
  "rollover_rendered = rollover_ended @ [Render None birthday_morning 1776211200006]"

definition rollover_run :: "event list" where
  "rollover_run = rollover_rendered @ [Tick 1776211201006]"

definition step_back_ended :: "event list" where
  "step_back_ended = [Render (Some (newDate 2026 3 15)) birthday_morning 1776211200005]"

definition step_back_run :: "event list" where
  "step_back_run = step_back_ended @ [Tick 1776211195000]"

definition fixed_target_run :: "event list" where
  "fixed_target_run =
     [Render (Some (newDate 2026 3 15)) eve_of_birthday 1776211199000,
      Tick 1776211200000]"

definition fixed_target_later :: "event list" where
  "fixed_target_later =
     [Tick 1776211201000,
      Render (Some (newDate 2026 3 15)) birthday_morning 1776211201005]"

section \<open>Properties of the countdown hook\<close>

subsection \<open>The calendar\<close>






















subsection \<open>The end of the countdown\<close>

lemma breakdown_zero_iff:
  fixes d :: int
  assumes "0 < d"
  shows "(d div 86400000 = 0 \<and> (d mod 86400000) div 3600000 = 0
          \<and> (d mod 3600000) div 60000 = 0 \<and> (d mod 60000) div 1000 = 0) \<longleftrightarrow> d < 1000"
proof
  assume z: "d div 86400000 = 0 \<and> (d mod 86400000) div 3600000 = 0
          \<and> (d mod 3600000) div 60000 = 0 \<and> (d mod 60000) div 1000 = 0"
  from z assms have a: "d < 86400000" by (simp add: zdiv_eq_0_iff)
  with assms have "d mod 86400000 = d" by simp
  with z assms have b: "d < 3600000" by (simp add: zdiv_eq_0_iff)
  with assms have "d mod 3600000 = d" by simp
  with z assms have c: "d < 60000" by (simp add: zdiv_eq_0_iff)
  with assms have "d mod 60000 = d" by simp
  with z assms show "d < 1000" by (simp add: zdiv_eq_0_iff)
next
  assume "d < 1000"
  with assms show "d div 86400000 = 0 \<and> (d mod 86400000) div 3600000 = 0
          \<and> (d mod 3600000) div 60000 = 0 \<and> (d mod 60000) div 1000 = 0"
    by simp
qed

lemma calculateTimeLeft_fst_zero:
  "fst (calculateTimeLeft target now s) = zeroTime \<longleftrightarrow> getTime target - now < 1000"
proof (cases "getTime target - now \<le> 0")
  case True
  then show ?thesis by (simp add: calculateTimeLeft_def Let_def)
next
  case False
  then have pos: "0 < getTime target - now" by simp
  show ?thesis
    using False breakdown_zero_iff [OF pos]
    by (simp add: calculateTimeLeft_def Let_def zeroTime_def)
qed

lemma calculateTimeLeft_all_zero:
  "(days (fst (calculateTimeLeft target now s)) = 0 \<and> hours (fst (calculateTimeLeft target now s)) = 0
    \<and> minutes (fst (calculateTimeLeft target now s)) = 0
    \<and> seconds (fst (calculateTimeLeft target now s)) = 0)
   \<longleftrightarrow> fst (calculateTimeLeft target now s) = zeroTime"
  by (cases "fst (calculateTimeLeft target now s)") (auto simp: zeroTime_def)

lemma calculateTimeLeft_snd:
  "snd (calculateTimeLeft target now s)
     = s\<lparr>countdownEnded := countdownEnded s \<or> getTime target \<le> now\<rparr>"
  by (simp add: calculateTimeLeft_def Let_def)

lemma countdown_effect_eq:
  "countdown_effect target now s =
     s\<lparr>countdownEnded := countdownEnded s \<or> getTime target \<le> now,
       countdownTime := fst (calculateTimeLeft target now s), timer := Some target\<rparr>"
  by (simp add: countdown_effect_def split_def calculateTimeLeft_snd)

lemma tick_eq:
  "tick now s =
     (case timer s of
        None \<Rightarrow> s
      | Some target \<Rightarrow>
          if getTime target - now < 1000
          then s\<lparr>countdownTime := zeroTime, countdownEnded := True, timer := None\<rparr>
          else s\<lparr>countdownTime := fst (calculateTimeLeft target now s)\<rparr>)"
proof (cases "timer s")
  case None
  then show ?thesis by (simp add: tick_def)
next
  case (Some target)
  show ?thesis
  proof (cases "getTime target - now < 1000")
    case True
    then have "fst (calculateTimeLeft target now s) = zeroTime"
      by (simp add: calculateTimeLeft_fst_zero)
    then show ?thesis
      using Some True by (simp add: tick_def split_def calculateTimeLeft_snd zeroTime_def)
  next
    case False
    then have nz: "fst (calculateTimeLeft target now s) \<noteq> zeroTime"
      by (simp add: calculateTimeLeft_fst_zero)
    moreover from False have "\<not> getTime target \<le> now" by simp
    ultimately show ?thesis
      using Some False
      by (simp add: tick_def split_def Let_def calculateTimeLeft_snd calculateTimeLeft_all_zero)
  qed
qed

lemma ended_inv_effect:
  assumes "ended_inv T lo s" "lo \<le> now" "getTime target = T"
  shows "ended_inv T now (countdown_effect target now s)"
  using assms
  by (auto simp: ended_inv_def countdown_effect_eq calculateTimeLeft_fst_zero)

lemma ended_inv_tick:
  assumes "ended_inv T lo s" "lo \<le> now"
  shows "ended_inv T now (tick now s)"
  using assms
  by (auto simp: ended_inv_def tick_eq calculateTimeLeft_fst_zero split: option.splits)

lemma ended_inv_reset:
  assumes "ended_inv T lo s"
  shows "ended_inv T lo (snd (resetCountdown newTargetDate today s))"
  using assms by (simp add: ended_inv_def resetCountdown_def Let_def)

lemma ended_inv_foldl:
  assumes "ended_inv T lo s" "sorted (readings evs)" "\<forall>x\<in>set (readings evs). lo \<le> x"
    "\<forall>t\<in>set (targets evs). t = T"
  shows "\<exists>lo'. ended_inv T lo' (foldl step s evs)"
  using assms
proof (induction evs arbitrary: s lo)
  case Nil
  then show ?case by auto
next
  case (Cons e evs)
  show ?case
  proof (cases e)
    case (Render targetDate today now)
    with Cons.prems have "ended_inv T now (step s e)"
      by (simp add: ended_inv_effect)
    moreover from Cons.prems Render have "sorted (readings evs)" "\<forall>x\<in>set (readings evs). now \<le> x"
      "\<forall>t\<in>set (targets evs). t = T"
      by simp_all
    ultimately show ?thesis using Cons.IH [of now "step s e"] by simp
  next
    case (Tick now)
    with Cons.prems have "ended_inv T now (step s e)"
      by (simp add: ended_inv_tick)
    moreover from Cons.prems Tick have "sorted (readings evs)" "\<forall>x\<in>set (readings evs). now \<le> x"
      "\<forall>t\<in>set (targets evs). t = T"
      by simp_all
    ultimately show ?thesis using Cons.IH [of now "step s e"] by simp
  next
    case (Reset newTargetDate today)
    with Cons.prems have "ended_inv T lo (step s e)"
      by (simp add: ended_inv_reset)
    moreover from Cons.prems Reset have "sorted (readings evs)" "\<forall>x\<in>set (readings evs). lo \<le> x"
      "\<forall>t\<in>set (targets evs). t = T"
      by simp_all
    ultimately show ?thesis using Cons.IH [of lo "step s e"] by simp
  qed
qed

lemma ended_inv_run:
  assumes "sorted (readings evs)" "\<forall>t\<in>set (targets evs). t = T"
  shows "countdownEnded (run evs) \<longrightarrow> countdownTime (run evs) = zeroTime"
proof (cases "readings evs")
  case Nil
  have "ended_inv T 0 useCountdown_init"
    by (simp add: ended_inv_def useCountdown_init_def)
  with assms Nil have "\<exists>lo'. ended_inv T lo' (foldl step useCountdown_init evs)"
    by (intro ended_inv_foldl [of T 0]) simp_all
  then show ?thesis by (auto simp: run_def ended_inv_def)
next
  case (Cons x xs)
  have "ended_inv T x useCountdown_init"
    by (simp add: ended_inv_def useCountdown_init_def)
  moreover from assms(1) Cons have "\<forall>y\<in>set (readings evs). x \<le> y" by auto
  ultimately have "\<exists>lo'. ended_inv T lo' (foldl step useCountdown_init evs)"
    using assms by (intro ended_inv_foldl [of T x]) simp_all
  then show ?thesis by (auto simp: run_def ended_inv_def)
qed

lemma ended_step:
  "\<not> is_Reset e \<Longrightarrow> countdownEnded s \<Longrightarrow> countdownEnded (step s e)"
  by (cases e) (auto simp: countdown_effect_eq tick_eq split: option.splits)

lemma ended_foldl:
  "\<forall>e\<in>set evs. \<not> is_Reset e \<Longrightarrow> countdownEnded s \<Longrightarrow> countdownEnded (foldl step s evs)"
  by (induction evs arbitrary: s) (simp_all add: ended_step)

lemma run_snoc: "run (evs @ [e]) = step (run evs) e"
  by (simp add: run_def)

lemma getTime_examples:
  "getTime (newDate 2026 3 15) = 1776211200000"
  "getTime (newDate 2027 3 15) = 1807747200000"
  "getTime eve_of_birthday = 1776211199999"
  "getTime birthday_morning = 1776211200005"
  by (simp_all add: newDate_def eve_of_birthday_def birthday_morning_def getTime_def
      DayFromYear_def daysBeforeMonth_def InLeapYear_def msPerDay_def)

lemma setFullYear_newDate:
  "99 < y \<Longrightarrow> setFullYear (newDate y m d) (fullYear (newDate y m d) + 1) = newDate (y + 1) m d"
  by (simp add: setFullYear_def newDate_def)

lemma defaultTargetDate_examples:
  "defaultTargetDate eve_of_birthday = newDate 2026 3 15"
  "defaultTargetDate birthday_morning = newDate 2027 3 15"
proof -
  have y: "fullYear eve_of_birthday = 2026" "fullYear birthday_morning = 2026"
    by (simp_all add: eve_of_birthday_def birthday_morning_def)
  show "defaultTargetDate eve_of_birthday = newDate 2026 3 15"
    by (simp add: defaultTargetDate_def Let_def y getTime_examples)
  show "defaultTargetDate birthday_morning = newDate 2027 3 15"
    by (simp add: defaultTargetDate_def Let_def y getTime_examples setFullYear_newDate)
qed

lemma rollover_ended_state:
  "run rollover_ended
     = \<lparr>countdownTime = zeroTime, countdownEnded = True, timer = Some (newDate 2026 3 15)\<rparr>"
  by (simp add: rollover_ended_def run_def useCountdown_init_def finalTargetDate_def
      defaultTargetDate_examples countdown_effect_def calculateTimeLeft_def Let_def getTime_examples)

lemma rollover_rendered_state:
  "run rollover_rendered
     = \<lparr>countdownTime = \<lparr>days = 364, hours = 23, minutes = 59, seconds = 59\<rparr>,
        countdownEnded = True, timer = Some (newDate 2027 3 15)\<rparr>"
  unfolding rollover_rendered_def run_snoc rollover_ended_state
  by (simp add: finalTargetDate_def defaultTargetDate_examples countdown_effect_def
      calculateTimeLeft_def Let_def getTime_examples)

lemma rollover_run_state:
  "run rollover_run
     = \<lparr>countdownTime = \<lparr>days = 364, hours = 23, minutes = 59, seconds = 58\<rparr>,
        countdownEnded = True, timer = Some (newDate 2027 3 15)\<rparr>"
  unfolding rollover_run_def run_snoc rollover_rendered_state
  by (simp add: tick_def calculateTimeLeft_def Let_def getTime_examples)

lemma step_back_ended_state:
  "run step_back_ended
     = \<lparr>countdownTime = zeroTime, countdownEnded = True, timer = Some (newDate 2026 3 15)\<rparr>"
  by (simp add: step_back_ended_def run_def useCountdown_init_def finalTargetDate_def
      countdown_effect_def calculateTimeLeft_def Let_def getTime_examples)

lemma step_back_run_state:
  "run step_back_run
     = \<lparr>countdownTime = \<lparr>days = 0, hours = 0, minutes = 0, seconds = 5\<rparr>,
        countdownEnded = True, timer = Some (newDate 2026 3 15)\<rparr>"
  unfolding step_back_run_def run_snoc step_back_ended_state
  by (simp add: tick_def calculateTimeLeft_def Let_def getTime_examples)

text \<open>
  Claim C3, as amended. Let every render of a run have the same target time and let the
  readings of the clock never decrease. Once \<open>countdownEnded\<close> is true, it stays true
  and the remainder is all zero after every further render and tick, as long as no reset
  happens; \<open>resetCountdown\<close> clears \<open>countdownEnded\<close> and zeroes the remainder.
\<close>

theorem ended_remains_zero:
  assumes "sorted (readings (evs @ evs'))" and "\<forall>t\<in>set (targets (evs @ evs')). t = T"
    and "\<forall>e\<in>set evs'. \<not> is_Reset e" and "countdownEnded (run evs)"
  shows "countdownEnded (run (evs @ evs')) \<and> countdownTime (run (evs @ evs')) = zeroTime
         \<and> \<not> countdownEnded (snd (resetCountdown newTargetDate today (run (evs @ evs'))))
         \<and> countdownTime (snd (resetCountdown newTargetDate today (run (evs @ evs')))) = zeroTime"
proof -
  have "run (evs @ evs') = foldl step (run evs) evs'"
    by (simp add: run_def)
  with assms(3,4) have e: "countdownEnded (run (evs @ evs'))"
    by (simp add: ended_foldl)
  with ended_inv_run [OF assms(1,2)] show ?thesis
    by (simp add: resetCountdown_def Let_def)
qed

lemma fixed_target_run_state:
  "run fixed_target_run = \<lparr>countdownTime = zeroTime, countdownEnded = True, timer = None\<rparr>"
  by (simp add: fixed_target_run_def run_def useCountdown_init_def finalTargetDate_def
      countdown_effect_def tick_def calculateTimeLeft_def Let_def getTime_examples zeroTime_def)

theorem ended_remains_zero_witness:
  "sorted (readings (fixed_target_run @ fixed_target_later))
   \<and> targets (fixed_target_run @ fixed_target_later) = [1776211200000, 1776211200000]
   \<and> filter is_Reset fixed_target_later = []
   \<and> countdownEnded (run fixed_target_run)
   \<and> countdownEnded (run (fixed_target_run @ fixed_target_later))
   \<and> countdownTime (run (fixed_target_run @ fixed_target_later))
       = \<lparr>days = 0, hours = 0, minutes = 0, seconds = 0\<rparr>"
proof -
  have a: "sorted (readings (fixed_target_run @ fixed_target_later))"
    by (simp add: fixed_target_run_def fixed_target_later_def)
  have t: "targets (fixed_target_run @ fixed_target_later) = [1776211200000, 1776211200000]"
    by (simp add: fixed_target_run_def fixed_target_later_def finalTargetDate_def getTime_examples)
  then have b: "\<forall>t\<in>set (targets (fixed_target_run @ fixed_target_later)). t = 1776211200000"
    by simp
  have f: "filter is_Reset fixed_target_later = []"
    by (simp add: fixed_target_later_def)
  have c: "\<forall>e\<in>set fixed_target_later. \<not> is_Reset e"
    by (simp add: fixed_target_later_def)
  have d: "countdownEnded (run fixed_target_run)"
    by (simp add: fixed_target_run_state)
  from a t f d ended_remains_zero [OF a b c d] show ?thesis
    by (simp add: zeroTime_def)
qed

text \<open>
  Claim C3 as stated fails without these two conditions. With the default target, as the
  page uses the hook, the render after the countdown has ended moves the target to the next
  year: \<open>countdownEnded\<close> stays true and the remainder is 364 days and more, also after the
  next tick, on a clock that only advances. With a fixed target, a clock that steps back
  below the target after the first calculation has ended the countdown gives a non-zero
  remainder on the next tick.
\<close>

theorem ended_remains_zero_counterexample:
  "sorted (readings rollover_run)
   \<and> countdownEnded (run rollover_ended)
   \<and> countdownEnded (run rollover_rendered)
   \<and> countdownTime (run rollover_rendered) = \<lparr>days = 364, hours = 23, minutes = 59, seconds = 59\<rparr>
   \<and> countdownEnded (run rollover_run)
   \<and> countdownTime (run rollover_run) = \<lparr>days = 364, hours = 23, minutes = 59, seconds = 58\<rparr>
   \<and> targets step_back_run = [1776211200000]
   \<and> countdownEnded (run step_back_ended)
   \<and> countdownEnded (run step_back_run)
   \<and> countdownTime (run step_back_run) = \<lparr>days = 0, hours = 0, minutes = 0, seconds = 5\<rparr>"
proof -
  have "sorted (readings rollover_run)"
    by (simp add: rollover_run_def rollover_rendered_def rollover_ended_def)
  moreover have "targets step_back_run = [1776211200000]"
    by (simp add: step_back_run_def step_back_ended_def finalTargetDate_def getTime_examples)
  ultimately show ?thesis
    by (simp add: rollover_ended_state rollover_rendered_state rollover_run_state
        step_back_ended_state step_back_run_state)
qed

subsection \<open>A target in the past\<close>

text \<open>
  Claim C4. When the target lies in the past at the moment the hook is initialised
  (the time value of the target is below the time the effect reads), the very first
  calculation returns the all-zero breakdown, and after the first run of the effect the
  stored remainder is all zero and \<open>countdownEnded\<close> is true.
\<close>

theorem past_target_ends_immediately:
  "getTime (finalTargetDate targetDate today) < now \<Longrightarrow>
     fst (calculateTimeLeft (finalTargetDate targetDate today) now useCountdown_init) = zeroTime
     \<and> countdownTime (run [Render targetDate today now]) = zeroTime
     \<and> countdownEnded (run [Render targetDate today now])"
  by (simp add: run_def countdown_effect_def calculateTimeLeft_def Let_def)

theorem past_target_ends_immediately_witness:
  "getTime (finalTargetDate (Some (newDate 2020 0 1)) (newDate 2026 10 3)) < 1600000000000
   \<and> countdownTime (run [Render (Some (newDate 2020 0 1)) (newDate 2026 10 3) 1600000000000])
       = \<lparr>days = 0, hours = 0, minutes = 0, seconds = 0\<rparr>
   \<and> countdownEnded (run [Render (Some (newDate 2020 0 1)) (newDate 2026 10 3) 1600000000000])"
proof -
  have past: "getTime (finalTargetDate (Some (newDate 2020 0 1)) (newDate 2026 10 3)) < 1600000000000"
    by (simp add: finalTargetDate_def newDate_def getTime_def DayFromYear_def daysBeforeMonth_def
        InLeapYear_def msPerDay_def)
  show ?thesis
    using past past_target_ends_immediately [OF past] by (simp add: zeroTime_def)
qed

section \<open>Properties of the guestbook form\<close>

lemma trim_eq_Nil_iff: "trim str = [] \<longleftrightarrow> (\<forall>c\<in>set str. isWhiteSpace c)"
proof
  assume "trim str = []"
  then have all: "\<forall>c\<in>set (dropWhile isWhiteSpace str). isWhiteSpace c"
    by (simp add: trim_def)
  have "dropWhile isWhiteSpace str = []"
  proof (cases "dropWhile isWhiteSpace str")
    case Nil
    then show ?thesis .
  next
    case (Cons c cs)
    then have "\<not> isWhiteSpace (hd (dropWhile isWhiteSpace str))"
      using hd_dropWhile [of isWhiteSpace str] by simp
    with Cons all show ?thesis by simp
  qed
  then show "\<forall>c\<in>set str. isWhiteSpace c"
    by simp
next
  assume "\<forall>c\<in>set str. isWhiteSpace c"
  then show "trim str = []"
    by (auto simp: trim_def dest: set_dropWhileD)
qed

text \<open>
  Claim C10. Submitting the form acts exactly when both inputs are non-blank after
  trimming, that is when each holds a character that is not white space: then the
  confirmation is shown, both inputs are cleared and one timeout is scheduled to hide the
  confirmation; otherwise the state (name, message, confirmation and all) is unchanged.
  The default action of the event is prevented either way.
\<close>

theorem handleSubmitMessage_iff:
  "(let s' = snd (handleSubmitMessage e s);
        ok = (trim (nameInput s) \<noteq> [] \<and> trim (messageInput s) \<noteq> [])
    in (ok \<longleftrightarrow> (\<exists>c\<in>set (nameInput s). \<not> isWhiteSpace c) \<and> (\<exists>c\<in>set (messageInput s). \<not> isWhiteSpace c))
     \<and> (ok \<longrightarrow> s' = s\<lparr>showThankYou := True, nameInput := [], messageInput := [],
                         hideTimeouts := Suc (hideTimeouts s)\<rparr>)
     \<and> (\<not> ok \<longrightarrow> s' = s)
     \<and> (hideTimeouts s' = Suc (hideTimeouts s) \<longleftrightarrow> ok)
     \<and> defaultPrevented (fst (handleSubmitMessage e s)))"
  by (auto simp: handleSubmitMessage_def Let_def trim_eq_Nil_iff)

theorem handleSubmitMessage_iff_witness:
  "trim (nameInput guestbook_example) = [65, 110, 110]
   \<and> trim (messageInput guestbook_example) = [72, 105, 33]
   \<and> snd (handleSubmitMessage \<lparr>defaultPrevented = False\<rparr> guestbook_example)
       = \<lparr>selectedMessage = None, nameInput = [], messageInput = [], showThankYou = True,
          hideTimeouts = 1\<rparr>
   \<and> snd (handleSubmitMessage \<lparr>defaultPrevented = False\<rparr> (guestbook_example\<lparr>messageInput := [32, 9]\<rparr>))
       = guestbook_example\<lparr>messageInput := [32, 9]\<rparr>"
  using handleSubmitMessage_iff [of "\<lparr>defaultPrevented = False\<rparr>" guestbook_example]
    handleSubmitMessage_iff [of "\<lparr>defaultPrevented = False\<rparr>" "guestbook_example\<lparr>messageInput := [32, 9]\<rparr>"]
  by (simp add: guestbook_example_def trim_def isWhiteSpace_def Let_def)

section \<open>Properties of the stage controller\<close>

lemma random_element:
  assumes "xs \<noteq> []" "0 \<le> r" "r < 1"
  shows "\<exists>x. element_at xs (randomIndex r xs) = Some x \<and> x \<in> set xs"
proof -
  have len: "0 < real (length xs)" using assms(1) by simp
  have "0 \<le> r * real (length xs)" using assms(2) by simp
  then have lo: "0 \<le> randomIndex r xs" by (simp add: randomIndex_def)
  have "r * real (length xs) < real (length xs)" using assms(3) len by simp
  then have "\<lfloor>r * real (length xs)\<rfloor> < int (length xs)" by (simp add: floor_less_iff)
  then have hi: "randomIndex r xs < int (length xs)" by (simp add: randomIndex_def)
  from lo hi have "nat (randomIndex r xs) < length xs" by simp
  then have "xs ! nat (randomIndex r xs) \<in> set xs" by simp
  with lo hi show ?thesis by (simp add: element_at_def)
qed

lemma food_lookup_Some:
  "food_lookup category = Some cd \<Longrightarrow>
     category \<in> {''lightFood'', ''heavyFood'', ''dessert'', ''drinks''} \<and> dishes cd \<noteq> [] \<and> places cd \<noteq> []"
  by (auto simp: food_lookup_def foodData_def split: if_splits)

lemma food_lookup_keys:
  "category \<in> {''lightFood'', ''heavyFood'', ''dessert'', ''drinks''} \<Longrightarrow> \<exists>cd. food_lookup category = Some cd"
  by (auto simp: food_lookup_def foodData_def)

text \<open>
  Claim C8. For each of the four keys of the food table and every value of the two random
  draws (each in the half-open unit interval), \<open>handleCategorySelect\<close> returns normally,
  records the category, selects a dish from the dishes of that category and a place from
  its places, and moves to the stage \<open>result\<close>; nothing else changes.
\<close>

theorem handleCategorySelect_result:
  assumes key: "category \<in> {''lightFood'', ''heavyFood'', ''dessert'', ''drinks''}"
    and r1: "0 \<le> r1" "r1 < 1" and r2: "0 \<le> r2" "r2 < 1"
  shows "\<exists>categoryData dish place.
           food_lookup category = Some categoryData
           \<and> dish \<in> set (dishes categoryData) \<and> place \<in> set (places categoryData)
           \<and> handleCategorySelect category r1 r2 s
               = Returned (s\<lparr>selectedCategory := Some category, selectedDish := Some dish,
                              selectedPlace := Some place, stage := StResult\<rparr>)"
proof -
  from key obtain cd where cd: "food_lookup category = Some cd"
    using food_lookup_keys by blast
  then have ne: "dishes cd \<noteq> []" "places cd \<noteq> []"
    using food_lookup_Some by blast+
  from random_element [OF ne(1) r1] obtain dish
    where dish: "element_at (dishes cd) (randomIndex r1 (dishes cd)) = Some dish" "dish \<in> set (dishes cd)"
    by blast
  from random_element [OF ne(2) r2] obtain place
    where place: "element_at (places cd) (randomIndex r2 (places cd)) = Some place" "place \<in> set (places cd)"
    by blast
  have "handleCategorySelect category r1 r2 s
          = Returned (s\<lparr>selectedCategory := Some category, selectedDish := Some dish,
                         selectedPlace := Some place, stage := StResult\<rparr>)"
    using cd dish(1) place(1) by (simp add: handleCategorySelect_def Let_def)
  with cd dish(2) place(2) show ?thesis by blast
qed

theorem handleCategorySelect_result_witness:
  "''dessert'' \<in> {''lightFood'', ''heavyFood'', ''dessert'', ''drinks''}
   \<and> (0::real) \<le> 1 / 2 \<and> (1 / 2 :: real) < 1 \<and> (0::real) \<le> 0.9 \<and> (0.9 :: real) < 1
   \<and> handleCategorySelect ''dessert'' (1 / 2) 0.9 page_init
       = Returned (page_init\<lparr>selectedCategory := Some ''dessert'', selectedDish := Some ''Tiramisu'',
                             selectedPlace := Some ''Sugar Spoon'', stage := StResult\<rparr>)"
proof -
  have run: "handleCategorySelect ''dessert'' (1 / 2) 0.9 page_init
       = Returned (page_init\<lparr>selectedCategory := Some ''dessert'', selectedDish := Some ''Tiramisu'',
                             selectedPlace := Some ''Sugar Spoon'', stage := StResult\<rparr>)"
    by (simp add: handleCategorySelect_def food_lookup_def foodData_def randomIndex_def
        element_at_def Let_def)
  have "\<exists>categoryData dish place.
           food_lookup ''dessert'' = Some categoryData
           \<and> dish \<in> set (dishes categoryData) \<and> place \<in> set (places categoryData)
           \<and> handleCategorySelect ''dessert'' (1 / 2) 0.9 page_init
               = Returned (page_init\<lparr>selectedCategory := Some ''dessert'', selectedDish := Some dish,
                              selectedPlace := Some place, stage := StResult\<rparr>)"
    by (rule handleCategorySelect_result) simp_all
  with run show ?thesis by simp
qed

text \<open>
  Claim C9. \<open>handleTryAgain\<close> never changes the selected category or the stage. With no
  category selected (\<open>null\<close> or the empty string) it returns the state as it is. With a
  category of the food table selected it changes the dish and the place only, each drawn
  from the lists of that same category. With a selected string that is no key of the
  table it throws before any update, so the state is again unchanged.
\<close>

theorem handleTryAgain_frame:
  "selectedCategory (state_of (handleTryAgain r1 r2 s)) = selectedCategory s
   \<and> stage (state_of (handleTryAgain r1 r2 s)) = stage s
   \<and> (selectedCategory s = None \<or> selectedCategory s = Some [] \<longrightarrow> handleTryAgain r1 r2 s = Returned s)
   \<and> (\<forall>category. selectedCategory s = Some category \<and> category \<noteq> [] \<and> food_lookup category = None
          \<longrightarrow> handleTryAgain r1 r2 s = Raised TypeError s)
   \<and> (\<forall>category categoryData.
          selectedCategory s = Some category \<and> food_lookup category = Some categoryData
          \<and> 0 \<le> r1 \<and> r1 < 1 \<and> 0 \<le> r2 \<and> r2 < 1
          \<longrightarrow> (\<exists>dish place.
                 dish \<in> set (dishes categoryData) \<and> place \<in> set (places categoryData)
                 \<and> handleTryAgain r1 r2 s
                     = Returned (s\<lparr>selectedDish := Some dish, selectedPlace := Some place\<rparr>)))"
proof (intro conjI allI impI)
  show "selectedCategory (state_of (handleTryAgain r1 r2 s)) = selectedCategory s"
    by (simp add: handleTryAgain_def Let_def split: option.splits)
  show "stage (state_of (handleTryAgain r1 r2 s)) = stage s"
    by (simp add: handleTryAgain_def Let_def split: option.splits)
  show "handleTryAgain r1 r2 s = Returned s"
    if "selectedCategory s = None \<or> selectedCategory s = Some []"
    using that by (auto simp: handleTryAgain_def)
  show "handleTryAgain r1 r2 s = Raised TypeError s"
    if "selectedCategory s = Some category \<and> category \<noteq> [] \<and> food_lookup category = None" for category
    using that by (simp add: handleTryAgain_def)
  show "\<exists>dish place.
          dish \<in> set (dishes cd) \<and> place \<in> set (places cd)
          \<and> handleTryAgain r1 r2 s = Returned (s\<lparr>selectedDish := Some dish, selectedPlace := Some place\<rparr>)"
    if h: "selectedCategory s = Some category \<and> food_lookup category = Some cd
          \<and> 0 \<le> r1 \<and> r1 < 1 \<and> 0 \<le> r2 \<and> r2 < 1" for category cd
  proof -
    from h have cd: "food_lookup category = Some cd" by simp
    then have ne: "dishes cd \<noteq> []" "places cd \<noteq> []" "category \<noteq> []"
      using food_lookup_Some [OF cd] by auto
    from h random_element [OF ne(1), of r1] obtain dish
      where dish: "element_at (dishes cd) (randomIndex r1 (dishes cd)) = Some dish" "dish \<in> set (dishes cd)"
      by blast
    from h random_element [OF ne(2), of r2] obtain place
      where place: "element_at (places cd) (randomIndex r2 (places cd)) = Some place" "place \<in> set (places cd)"
      by blast
    have "handleTryAgain r1 r2 s = Returned (s\<lparr>selectedDish := Some dish, selectedPlace := Some place\<rparr>)"
      using h cd ne(3) dish(1) place(1) by (simp add: handleTryAgain_def Let_def)
    with dish(2) place(2) show ?thesis by blast
  qed
qed

theorem handleTryAgain_frame_witness:
  "handleTryAgain (1 / 4) (3 / 4) page_init = Returned page_init
   \<and> selectedCategory page_result = Some ''drinks''
   \<and> handleTryAgain (1 / 4) (3 / 4) page_result
       = Returned (page_result\<lparr>selectedDish := Some ''Iced Caramel Latte'', selectedPlace := Some ''Fizz & Sip''\<rparr>)
   \<and> handleTryAgain (1 / 4) (3 / 4) (page_result\<lparr>selectedCategory := Some ''pizza''\<rparr>)
       = Raised TypeError (page_result\<lparr>selectedCategory := Some ''pizza''\<rparr>)"
proof -
  have a: "selectedCategory page_init = None \<or> selectedCategory page_init = Some []"
    by (simp add: page_init_def)
  have b: "selectedCategory (page_result\<lparr>selectedCategory := Some ''pizza''\<rparr>) = Some ''pizza'' \<and> ''pizza'' \<noteq> []
       \<and> food_lookup ''pizza'' = None"
    by (simp add: food_lookup_def foodData_def)
  have c: "handleTryAgain (1 / 4) (3 / 4) page_result
       = Returned (page_result\<lparr>selectedDish := Some ''Iced Caramel Latte'', selectedPlace := Some ''Fizz & Sip''\<rparr>)"
    by (simp add: handleTryAgain_def page_result_def page_init_def food_lookup_def foodData_def
        randomIndex_def element_at_def Let_def)
  from a b c handleTryAgain_frame [of "1 / 4" "3 / 4" page_init]
    handleTryAgain_frame [of "1 / 4" "3 / 4" "page_result\<lparr>selectedCategory := Some ''pizza''\<rparr>"]
  show ?thesis by (simp add: page_result_def)
qed

section \<open>Properties of formatTime\<close>













section \<open>Properties of the audio session hook\<close>

lemmas audio_defs =
  el_play_def el_pause_def newAudio_def settle_def emit_def notify_def safeSetState_def
  handlePlay_v1_def handlePause_v1_def handlePlay_v2_def handlePause_v2_def handleError_def
  useEffect_v1_def deps_v1_def rerender_v1_def cleanup_v2_def useEffect_v2_def deps_v2_def
  rerender_v2_def

subsection \<open>The callbacks alone\<close>

lemma changeSong_v2_callback_same:
  "songUrl = currentSong s \<Longrightarrow> changeSong_v2_callback cb songUrl s = s"
  by (simp add: changeSong_v2_callback_def split: option.splits)

lemma changeSong_v2_callback_other:
  assumes "audioRef s \<noteq> None" "isMountedRef s" "songUrl \<noteq> currentSong s"
  shows "changeSong_v2_callback cb songUrl s
           = s\<lparr>isLoading := True, currentSong := songUrl,
               trace := trace s @ (if onSongChange cb then [OnSongChange songUrl] else [])\<rparr>"
  using assms by (cases "audioRef s") (auto simp: changeSong_v2_callback_def audio_defs Let_def)





subsection \<open>The effect and its cleanup\<close>




lemma useEffect_v2_started:
  assumes "audioRef s = Some a" "paused a" "autoPlay" "\<not> isPlaying s" "canAutoplay s"
  shows "useEffect_v2 autoPlay cb Fulfilled s
           = Returned (s\<lparr>isMountedRef := True, audioRef := Some (a\<lparr>src := currentSong s, paused := False\<rparr>),
                          isPlaying := True, errorState := None,
                          trace := trace s @ [SetSrc (currentSong s), PlayCall]
                                     @ (if onPlay cb then [OnPlay] else [])\<rparr>)"
  using assms by (auto simp: useEffect_v2_def audio_defs Let_def)









subsection \<open>The effect of the first variant\<close>


lemma useEffect_v1_started:
  assumes "audioRef s = Some a" "paused a" "autoPlay" "\<not> isPlaying s"
  shows "useEffect_v1 autoPlay Fulfilled s
           = Returned (s\<lparr>audioRef := Some (a\<lparr>src := currentSong s, paused := False\<rparr>),
                          isPlaying := True,
                          trace := trace s @ [SetSrc (currentSong s), PlayCall]\<rparr>)"
  using assms by (auto simp: useEffect_v1_def audio_defs Let_def)

subsection \<open>The effect settles\<close>

lemma useEffect_v1_deps:
  assumes "useEffect_v1 autoPlay r s = Returned s1"
  shows "currentSong s1 = currentSong s" and "isPlaying s1 = isPlaying s \<or> isPlaying s1"
  using assms
  by (cases r; auto simp: useEffect_v1_def el_play_def settle_def emit_def handlePlay_v1_def
        Let_def split: if_splits)+

lemma useEffect_v1_playing:
  assumes "isPlaying s"
  shows "\<exists>s2. useEffect_v1 autoPlay r s = Returned s2 \<and> deps_v1 s2 = deps_v1 s"
  using assms by (simp add: useEffect_v1_def deps_v1_def emit_def Let_def)

lemma useEffect_v1_settled:
  assumes "useEffect_v1 autoPlay r s = Returned s1" and "deps_v1 s1 \<noteq> deps_v1 s"
  shows "\<exists>s2. useEffect_v1 autoPlay r2 s1 = Returned s2 \<and> deps_v1 s2 = deps_v1 s1"
proof -
  have "isPlaying s1"
    using useEffect_v1_deps [OF assms(1)] assms(2) by (auto simp: deps_v1_def)
  then show ?thesis by (rule useEffect_v1_playing)
qed

lemma cleanup_v2_deps: "deps_v2 (cleanup_v2 s) = deps_v2 s"
  by (simp add: cleanup_v2_def deps_v2_def el_pause_def emit_def Let_def split: option.splits)

lemma useEffect_v2_deps:
  assumes "useEffect_v2 autoPlay cb r s = Returned s1"
  shows "currentSong s1 = currentSong s" and "canAutoplay s1 = canAutoplay s \<or> \<not> canAutoplay s1"
  using assms
  by (cases r; auto simp: useEffect_v2_def el_play_def settle_def emit_def notify_def
        safeSetState_def handlePlay_v2_def handleError_def Let_def split: if_splits)+

lemma useEffect_v2_blocked:
  assumes "\<not> canAutoplay s"
  shows "\<exists>s2. useEffect_v2 autoPlay cb r s = Returned s2 \<and> deps_v2 s2 = deps_v2 s"
  using assms by (simp add: useEffect_v2_def deps_v2_def emit_def Let_def)

lemma useEffect_v2_settled:
  assumes "useEffect_v2 autoPlay cb r (cleanup_v2 s) = Returned s1" and "deps_v2 s1 \<noteq> deps_v2 s"
  shows "\<exists>s2. useEffect_v2 autoPlay cb r2 (cleanup_v2 s1) = Returned s2 \<and> deps_v2 s2 = deps_v2 s1"
proof -
  have "\<not> canAutoplay s1"
    using useEffect_v2_deps [OF assms(1)] assms(2) cleanup_v2_deps [of s]
    by (auto simp: deps_v2_def)
  then have "\<not> canAutoplay (cleanup_v2 s1)"
    using cleanup_v2_deps [of s1] by (simp add: deps_v2_def)
  then obtain s2 where "useEffect_v2 autoPlay cb r2 (cleanup_v2 s1) = Returned s2"
    "deps_v2 s2 = deps_v2 (cleanup_v2 s1)"
    using useEffect_v2_blocked by blast
  then show ?thesis by (simp add: cleanup_v2_deps)
qed

subsection \<open>changeSong\<close>


lemma changeSong_v2_paused:
  assumes "audioRef s = Some a" "paused a" "\<not> isPlaying s" "isMountedRef s" "canAutoplay s"
    "songUrl \<noteq> currentSong s"
  shows "changeSong_v2 True cb Fulfilled songUrl s
           = Returned (s\<lparr>isLoading := True, currentSong := songUrl,
                 audioRef := Some \<lparr>src = songUrl, paused = False\<rparr>, isPlaying := True,
                 errorState := None,
                 trace := trace s @ (if onSongChange cb then [OnSongChange songUrl] else [])
                            @ [PauseCall, SetSrc songUrl, PlayCall] @ (if onPlay cb then [OnPlay] else [])\<rparr>)"
proof -
  have cbk: "changeSong_v2_callback cb songUrl s
           = s\<lparr>isLoading := True, currentSong := songUrl,
               trace := trace s @ (if onSongChange cb then [OnSongChange songUrl] else [])\<rparr>"
    using assms by (intro changeSong_v2_callback_other) simp_all
  show ?thesis
    unfolding changeSong_v2_def cbk using assms
    by (simp add: audio_defs Let_def)
qed


lemma changeSong_v2_same:
  "songUrl = currentSong s \<Longrightarrow> changeSong_v2 autoPlay cb r' songUrl s = Returned s"
  by (simp add: changeSong_v2_def changeSong_v2_callback_same rerender_v2_def)



subsection \<open>play\<close>












subsection \<open>togglePlay\<close>













end
